theory Spec2Isabelle
  imports Complex_Main "HOL-Library.AList"
begin

section \<open>Floating-point values\<close>

text \<open>
  Both scripts compute on NumPy/pandas float64 values. The model keeps the special
  values of IEEE 754 that the code can produce and react to (the two infinities and
  NaN) and idealises the finite values as exact reals: no rounding, no overflow, and a
  single unsigned zero that behaves as \<open>+0.0\<close>. NumPy and pandas do not raise on
  a float division by zero: they return an infinity or NaN.
\<close>

datatype fl = Fin real | PInf | NInf | NaN

fun fadd :: "fl \<Rightarrow> fl \<Rightarrow> fl" where
  "fadd NaN y = NaN"
| "fadd x NaN = NaN"
| "fadd (Fin a) (Fin b) = Fin (a + b)"
| "fadd PInf NInf = NaN"
| "fadd NInf PInf = NaN"
| "fadd PInf y = PInf"
| "fadd x PInf = PInf"
| "fadd NInf y = NInf"
| "fadd x NInf = NInf"

fun fneg :: "fl \<Rightarrow> fl" where
  "fneg (Fin a) = Fin (- a)"
| "fneg PInf = NInf"
| "fneg NInf = PInf"
| "fneg NaN = NaN"

fun fmul :: "fl \<Rightarrow> fl \<Rightarrow> fl" where
  "fmul NaN y = NaN"
| "fmul x NaN = NaN"
| "fmul (Fin a) (Fin b) = Fin (a * b)"
| "fmul (Fin a) PInf = (if 0 < a then PInf else if a < 0 then NInf else NaN)"
| "fmul (Fin a) NInf = (if 0 < a then NInf else if a < 0 then PInf else NaN)"
| "fmul PInf (Fin b) = (if 0 < b then PInf else if b < 0 then NInf else NaN)"
| "fmul NInf (Fin b) = (if 0 < b then NInf else if b < 0 then PInf else NaN)"
| "fmul PInf PInf = PInf"
| "fmul PInf NInf = NInf"
| "fmul NInf PInf = NInf"
| "fmul NInf NInf = PInf"

fun fdiv :: "fl \<Rightarrow> fl \<Rightarrow> fl" where
  "fdiv NaN y = NaN"
| "fdiv x NaN = NaN"
| "fdiv (Fin a) (Fin b) =
     (if b \<noteq> 0 then Fin (a / b)
      else if 0 < a then PInf else if a < 0 then NInf else NaN)"
| "fdiv (Fin a) PInf = Fin 0"
| "fdiv (Fin a) NInf = Fin 0"
| "fdiv PInf (Fin b) = (if 0 \<le> b then PInf else NInf)"
| "fdiv NInf (Fin b) = (if 0 \<le> b then NInf else PInf)"
| "fdiv PInf y = NaN"
| "fdiv NInf y = NaN"

fun flt :: "fl \<Rightarrow> fl \<Rightarrow> bool" where
  "flt NaN y = False"
| "flt x NaN = False"
| "flt (Fin a) (Fin b) = (a < b)"
| "flt x NInf = False"
| "flt PInf y = False"
| "flt NInf y = True"
| "flt x PInf = True"

fun fle :: "fl \<Rightarrow> fl \<Rightarrow> bool" where
  "fle NaN y = False"
| "fle x NaN = False"
| "fle (Fin a) (Fin b) = (a \<le> b)"
| "fle NInf y = True"
| "fle x PInf = True"
| "fle x NInf = False"
| "fle PInf y = False"

text \<open>
  The operators of the source are the operators of the model: \<open>+\<close>, \<open>-\<close>,
  \<open>*\<close>, \<open>/\<close>, \<open><\<close> and \<open>\<le>\<close> on \<^typ>\<open>fl\<close>. Every comparison with NaN is
  false, so \<open>\<le>\<close> is not an order here and only the syntactic classes are
  instantiated.
\<close>

instantiation fl :: "{plus, uminus, minus, times, inverse, ord}"
begin

definition plus_fl :: "fl \<Rightarrow> fl \<Rightarrow> fl" where
  "plus_fl x y = fadd x y"

definition uminus_fl :: "fl \<Rightarrow> fl" where
  "uminus_fl x = fneg x"

definition minus_fl :: "fl \<Rightarrow> fl \<Rightarrow> fl" where
  "minus_fl x y = fadd x (fneg y)"

definition times_fl :: "fl \<Rightarrow> fl \<Rightarrow> fl" where
  "times_fl x y = fmul x y"

definition divide_fl :: "fl \<Rightarrow> fl \<Rightarrow> fl" where
  "divide_fl x y = fdiv x y"

definition inverse_fl :: "fl \<Rightarrow> fl" where
  "inverse_fl x = fdiv (Fin 1) x"

definition less_fl :: "fl \<Rightarrow> fl \<Rightarrow> bool" where
  "less_fl x y = flt x y"

definition less_eq_fl :: "fl \<Rightarrow> fl \<Rightarrow> bool" where
  "less_eq_fl x y = fle x y"

instance ..

end

text \<open>
  \<open>x ** y\<close> with a finite exponent \<open>y\<close> (every exponent of the source is a
  constant): NumPy's \<open>power\<close>, which follows C's \<open>pow\<close>. A negative base with a
  fractional exponent is NaN; zero to a negative exponent is \<open>inf\<close>.
\<close>

definition fpow :: "fl \<Rightarrow> real \<Rightarrow> fl" where
  "fpow x y =
     (if y = 0 then Fin 1
      else case x of
        NaN \<Rightarrow> NaN
      | Fin a \<Rightarrow>
          (if 0 < a then Fin (a powr y)
           else if a = 0 then (if 0 < y then Fin 0 else PInf)
           else if of_int \<lfloor>y\<rfloor> = y
             then (if 0 < y then Fin (a ^ nat \<lfloor>y\<rfloor>) else Fin (inverse (a ^ nat \<lfloor>- y\<rfloor>)))
             else NaN)
      | PInf \<Rightarrow> (if 0 < y then PInf else Fin 0)
      | NInf \<Rightarrow>
          (if y < 0 then Fin 0
           else if of_int \<lfloor>y\<rfloor> = y \<and> odd \<lfloor>y\<rfloor> then NInf else PInf))"

fun fexp :: "fl \<Rightarrow> fl" where
  "fexp (Fin a) = Fin (exp a)"
| "fexp PInf = PInf"
| "fexp NInf = Fin 0"
| "fexp NaN = NaN"

fun fsqrt :: "fl \<Rightarrow> fl" where
  "fsqrt (Fin a) = (if 0 \<le> a then Fin (sqrt a) else NaN)"
| "fsqrt PInf = PInf"
| "fsqrt NInf = NaN"
| "fsqrt NaN = NaN"

text \<open>\<open>np.clip(x, lo, hi)\<close> with finite bounds: NaN stays NaN.\<close>

fun clip :: "fl \<Rightarrow> real \<Rightarrow> real \<Rightarrow> fl" where
  "clip NaN lo hi = NaN"
| "clip (Fin a) lo hi = Fin (min (max a lo) hi)"
| "clip PInf lo hi = Fin hi"
| "clip NInf lo hi = Fin (min lo hi)"

fun isnan :: "fl \<Rightarrow> bool" where
  "isnan NaN = True"
| "isnan x = False"

definition fsum :: "fl list \<Rightarrow> fl" where
  "fsum xs = foldl (+) (Fin 0) xs"

text \<open>
  \<open>np.mean\<close> of a pandas Series is \<open>Series.mean()\<close>, which skips NaN entries
  (\<open>skipna=True\<close>) and is NaN when nothing is left.
\<close>

definition mean :: "fl list \<Rightarrow> fl" where
  "mean xs =
     (let vs = filter (\<lambda>x. \<not> isnan x) xs
      in if vs = [] then NaN else fsum vs / Fin (real (length vs)))"

section \<open>models.py: the formula library\<close>

text \<open>
  The default argument \<open>sigma=5.67e-8\<close> of models.py and the module constant of
  HIdata_error.py; no call of the repository passes another value.
\<close>

definition sigma :: real where
  "sigma = 5.67 / 10 ^ 8"

definition brutsaert_clear_sky :: "fl \<Rightarrow> fl \<Rightarrow> fl" where
  "brutsaert_clear_sky Ta ea =
     (let epsilon_0 = Fin 1.24 * fpow (ea / Ta) (1 / 7)
      in epsilon_0 * Fin sigma * fpow Ta 4)"

text \<open>\<open>clr_pct\<close> is \<open>None\<close> when the argument is Python's \<open>None\<close> (its default).\<close>

definition calculate_cloud_fraction :: "fl \<Rightarrow> fl \<Rightarrow> fl option \<Rightarrow> fl" where
  "calculate_cloud_fraction ghi_m ghi_c clr_pct =
     (case clr_pct of
        Some p \<Rightarrow> Fin 1 - p
      | None \<Rightarrow> (let cloud_fraction = Fin 1 - (ghi_m / ghi_c) in clip cloud_fraction 0 1))"

definition maykut_church :: "fl \<Rightarrow> fl \<Rightarrow> fl" where
  "maykut_church LW_clear c = LW_clear * (Fin 1 + Fin 0.22 * fpow c 2.75)"

definition jacobs :: "fl \<Rightarrow> fl \<Rightarrow> fl" where
  "jacobs LW_clear c = LW_clear * (Fin 1 + Fin 0.26 * c)"

definition suguita_brutsaert :: "fl \<Rightarrow> fl \<Rightarrow> fl" where
  "suguita_brutsaert LW_clear c = LW_clear * (Fin 1 + Fin 0.0496 * fpow c 2.45)"

definition konzelmann :: "fl \<Rightarrow> fl \<Rightarrow> fl \<Rightarrow> fl" where
  "konzelmann LW_clear c Ta =
     LW_clear * (Fin 1 - fpow c 4) + Fin 0.952 * fpow c 4 * Fin sigma * fpow Ta 4"

definition crawford_duchon :: "fl \<Rightarrow> fl \<Rightarrow> fl \<Rightarrow> fl" where
  "crawford_duchon LW_clear c Ta = LW_clear * (Fin 1 - c) + c * Fin sigma * fpow Ta 4"

definition lhomme :: "fl \<Rightarrow> fl \<Rightarrow> fl" where
  "lhomme LW_clear c = LW_clear * (Fin 1.03 + Fin 0.34 * c)"

datatype error = KeyError string | ValueError string | TypeError

text \<open>
  \<open>compute_cloudy_LW(Ta, ea, c, model='crawford_duchon')\<close>. The last argument of
  the model is \<open>None\<close> for a call that leaves \<open>model\<close> out, which Python fills
  with the default of the signature, and \<open>Some m\<close> for a call that passes \<open>m\<close>.
\<close>

definition compute_cloudy_LW :: "fl \<Rightarrow> fl \<Rightarrow> fl \<Rightarrow> string option \<Rightarrow> error + fl" where
  "compute_cloudy_LW Ta ea c model_arg =
     (let model = (case model_arg of None \<Rightarrow> ''crawford_duchon'' | Some m \<Rightarrow> m);
          LW_clear = brutsaert_clear_sky Ta ea
      in if model = ''maykut_church'' then Inr (maykut_church LW_clear c)
         else if model = ''jacobs'' then Inr (jacobs LW_clear c)
         else if model = ''suguita_brutsaert'' then Inr (suguita_brutsaert LW_clear c)
         else if model = ''konzelmann'' then Inr (konzelmann LW_clear c Ta)
         else if model = ''crawford_duchon'' then Inr (crawford_duchon LW_clear c Ta)
         else if model = ''lhomme'' then Inr (lhomme LW_clear c)
         else Inl (ValueError ''Invalid model name. Choose from predefined models.''))"

definition compute_emissivity :: "fl \<Rightarrow> fl \<Rightarrow> fl" where
  "compute_emissivity LW_measured Ta = LW_measured / (Fin sigma * fpow Ta 4)"

section \<open>HIdata_error.py: formulas and error metrics\<close>

definition a1 :: real where
  "a1 = 0.42036059446739293"

definition a2 :: real where
  "a2 = 0.8335622813711547"

definition m1 :: real where
  "m1 = 0.24940266639537556"

definition m2 :: real where
  "m2 = - 0.13137915252218796"

definition n1 :: real where
  "n1 = - 0.31787964985255074"

definition H :: real where
  "H = 8500"

definition calculate_cf :: "fl \<Rightarrow> fl \<Rightarrow> fl \<Rightarrow> fl \<Rightarrow> fl" where
  "calculate_cf dhi_m ghi_m dni_m dni_c =
     (let k_d = dhi_m / ghi_m;
          k_t = dni_m / dni_c;
          cf = Fin a1 * fpow k_d a2 + Fin m1 * fpow k_t m2 + Fin n1
      in cf)"

definition predict_epsilon_sky :: "fl \<Rightarrow> fl \<Rightarrow> fl \<Rightarrow> fl" where
  "predict_epsilon_sky cf epsilon_clear_sky epsilon_clouds =
     (let epsilon_sky = (Fin 1 - cf) * epsilon_clear_sky + cf * epsilon_clouds
      in epsilon_sky)"

definition calculate_actual_epsilon :: "fl \<Rightarrow> fl \<Rightarrow> fl" where
  "calculate_actual_epsilon temp dlw =
     (let t_kelvin = temp + Fin 273.15;
          epsilon = dlw / (Fin sigma * fpow t_kelvin 4)
      in epsilon)"

definition calculate_clear_sky_emissivity :: "fl \<Rightarrow> fl \<Rightarrow> fl \<Rightarrow> fl" where
  "calculate_clear_sky_emissivity temp rh altitude =
     (let e_s = Fin 6.112 * fexp (Fin 17.625 * temp / (temp - Fin 30.11 + Fin 273.15));
          pw_hpa = e_s * rh / Fin 100;
          sqrt_pw = fsqrt (pw_hpa / Fin 1013.25);
          e_clear_sky = Fin 0.6 + Fin 1.652 * sqrt_pw + Fin 0.15 * (fexp (- altitude / Fin H) - Fin 1)
      in e_clear_sky)"

text \<open>
  \<open>calculate_errors(actual, predicted)\<close> on two columns of one frame: they carry
  the same index, so the subtraction pairs the values by position.
\<close>

definition calculate_errors :: "fl list \<Rightarrow> fl list \<Rightarrow> fl \<times> fl \<times> fl \<times> fl" where
  "calculate_errors actual predicted =
     (let errors = map2 (-) predicted actual;
          mbe = mean errors;
          rmse = fsqrt (mean (map (\<lambda>e. fpow e 2) errors));
          rMBE = mbe / mean actual * Fin 100;
          rRMSE = rmse / mean actual * Fin 100
      in (mbe, rmse, rMBE, rRMSE))"

section \<open>HIdata_error.py: the single-station script\<close>

text \<open>
  One row of the spreadsheet, with the columns the script reads. \<open>read_excel\<close>
  labels the rows \<open>0, 1, 2, ...\<close> (a RangeIndex); a frame is the list of its
  labelled rows and a Series the list of its labelled values.
\<close>

record obs =
  DHI :: fl
  GHI :: fl
  DNI :: fl
  Clearsky_DNI :: fl
  temp :: fl
  dlw :: fl
  rh :: fl
  site_elev :: fl
  Solar_Zenith_Angle :: fl

type_synonym frame = "(nat \<times> obs) list"

type_synonym series = "(nat \<times> fl) list"

definition read_excel :: "obs list \<Rightarrow> frame" where
  "read_excel rows = enumerate 0 rows"

text \<open>\<open>data['GHI']\<close>: a column of the frame, with the frame's index.\<close>

definition column :: "(obs \<Rightarrow> fl) \<Rightarrow> frame \<Rightarrow> series" where
  "column f data = map (\<lambda>(l, r). (l, f r)) data"

text \<open>
  A formula called on Series works elementwise. The Series of one call are columns
  captured from one frame, so they share its index and pandas pairs them by position.
\<close>

definition elementwise2 :: "(fl \<Rightarrow> fl \<Rightarrow> fl) \<Rightarrow> series \<Rightarrow> series \<Rightarrow> series" where
  "elementwise2 f s t = map (\<lambda>((l, x), (_, y)). (l, f x y)) (zip s t)"

definition elementwise3 ::
  "(fl \<Rightarrow> fl \<Rightarrow> fl \<Rightarrow> fl) \<Rightarrow> series \<Rightarrow> series \<Rightarrow> series \<Rightarrow> series" where
  "elementwise3 f s t u = map (\<lambda>((l, x), (_, y), (_, z)). (l, f x y z)) (zip s (zip t u))"

definition elementwise4 ::
  "(fl \<Rightarrow> fl \<Rightarrow> fl \<Rightarrow> fl \<Rightarrow> fl) \<Rightarrow> series \<Rightarrow> series \<Rightarrow> series \<Rightarrow> series \<Rightarrow> series" where
  "elementwise4 f s t u v =
     map (\<lambda>((l, x), (_, y), (_, z), (_, w)). (l, f x y z w)) (zip s (zip t (zip u v)))"

text \<open>The five boolean Series of lines 63 to 67, at one row.\<close>

definition condition_0 :: "obs \<Rightarrow> bool" where
  "condition_0 r = (Solar_Zenith_Angle r < Fin 72.5)"

definition condition_1 :: "obs \<Rightarrow> bool" where
  "condition_1 r = (GHI r > Fin 0 \<and> DHI r > Fin 0)"

definition condition_2 :: "obs \<Rightarrow> bool" where
  "condition_2 r =
     (DNI r / Clearsky_DNI r > Fin 0 \<and> DNI r / Clearsky_DNI r \<le> Fin 1.5)"

definition condition_3 :: "obs \<Rightarrow> bool" where
  "condition_3 r = (temp r \<le> Fin 90 \<and> temp r \<ge> Fin (- 80))"

definition condition_4 :: "obs \<Rightarrow> bool" where
  "condition_4 r = (dlw r > Fin 0)"

text \<open>\<open>data[condition_0 & condition_1 & condition_2 & condition_3 & condition_4]\<close>\<close>

definition filter_rows :: "frame \<Rightarrow> frame" where
  "filter_rows data =
     filter (\<lambda>(l, r). condition_0 r \<and> condition_1 r \<and> condition_2 r \<and> condition_3 r \<and> condition_4 r)
       data"

text \<open>
  The value that a row labelled \<open>l\<close> takes from a Series \<open>s\<close> assigned to a
  column: the value of \<open>s\<close> with that label, or NaN when \<open>s\<close> has none.
\<close>

definition aligned :: "series \<Rightarrow> nat \<Rightarrow> fl" where
  "aligned s l = (case map_of s l of Some v \<Rightarrow> v | None \<Rightarrow> NaN)"

text \<open>
  \<open>data['name'] = s\<close> for a Series \<open>s\<close> and a new column. A frame that has no
  rows first takes over the index of a Series that has values, with NaN in every
  column it already has (the row \<open>blank\<close>); this is pandas'
  \<open>_ensure_valid_index\<close>. Then each row takes the value of \<open>s\<close> with its own
  label. The result pairs each row with the value of the new column.
\<close>

definition assign_column :: "'r \<Rightarrow> (nat \<times> 'r) list \<Rightarrow> series \<Rightarrow> (nat \<times> 'r \<times> fl) list" where
  "assign_column blank data s =
     (let data' = (if data = [] \<and> s \<noteq> [] then map (\<lambda>(l, v). (l, blank)) s else data)
      in map (\<lambda>(l, r). (l, r, aligned s l)) data')"

text \<open>A row with NaN in every column of the spreadsheet.\<close>

definition nan_row :: obs where
  "nan_row =
     \<lparr>DHI = NaN, GHI = NaN, DNI = NaN, Clearsky_DNI = NaN, temp = NaN, dlw = NaN, rh = NaN,
      site_elev = NaN, Solar_Zenith_Angle = NaN\<rparr>"

text \<open>A row of the output table: the columns of the spreadsheet and the four derived columns.\<close>

record out_row =
  raw :: obs
  actual_epsilon :: fl
  epsilon_clear_sky :: fl
  CF :: fl
  predicted_epsilon :: fl

text \<open>
  Lines 52 to 59 capture the columns from the frame as loaded; line 68 rebinds
  \<open>data\<close> to the filtered frame and leaves the captured Series as they are. Lines
  71, 74 and 77 call the formulas on the captured Series.
\<close>

definition captured_actual_epsilon :: "frame \<Rightarrow> series" where
  "captured_actual_epsilon data0 =
     (let temp_s = column temp data0; dlw_s = column dlw data0
      in elementwise2 calculate_actual_epsilon temp_s dlw_s)"

definition captured_clear_sky :: "frame \<Rightarrow> series" where
  "captured_clear_sky data0 =
     (let temp_s = column temp data0; rh_s = column rh data0;
          altitude = column site_elev data0
      in elementwise3 calculate_clear_sky_emissivity temp_s rh_s altitude)"

definition captured_cf :: "frame \<Rightarrow> series" where
  "captured_cf data0 =
     (let dhi_m = column DHI data0; ghi_m = column GHI data0;
          dni_m = column DNI data0; dni_c = column Clearsky_DNI data0
      in elementwise4 calculate_cf dhi_m ghi_m dni_m dni_c)"

definition epsilon_clouds :: fl where
  "epsilon_clouds = Fin 1"

text \<open>
  Lines 71 to 78 on the filtered frame \<open>data\<close>. Lines 71, 74 and 77 assign the
  Series computed from the captured columns of \<open>data0\<close> to the new columns
  \<open>actual_epsilon\<close>, \<open>epsilon_clear_sky\<close> and \<open>CF\<close>. Line 78 computes
  \<open>predicted_epsilon\<close> from the columns \<open>CF\<close> and \<open>epsilon_clear_sky\<close> of the
  frame as it then is, and assigns it. The rows of the result are the rows of the
  table that the script writes.
\<close>

definition derive :: "frame \<Rightarrow> frame \<Rightarrow> (nat \<times> out_row) list" where
  "derive data0 data =
     (let d1 = assign_column nan_row data (captured_actual_epsilon data0);
          d2 = assign_column (nan_row, NaN) d1 (captured_clear_sky data0);
          d3 = assign_column ((nan_row, NaN), NaN) d2 (captured_cf data0);
          predicted =
            map (\<lambda>(l, ((r, ae), ec), cf). (l, predict_epsilon_sky cf ec epsilon_clouds)) d3;
          d4 = assign_column (((nan_row, NaN), NaN), NaN) d3 predicted
      in map (\<lambda>(l, (((r, ae), ec), cf), pe).
                (l, \<lparr>raw = r, actual_epsilon = ae, epsilon_clear_sky = ec, CF = cf,
                     predicted_epsilon = pe\<rparr>))
           d4)"

text \<open>The script: the table written to the CSV file and the four printed metrics.\<close>

definition HIdata_error :: "obs list \<Rightarrow> (nat \<times> out_row) list \<times> (fl \<times> fl \<times> fl \<times> fl)" where
  "HIdata_error rows =
     (let data0 = read_excel rows;
          data = filter_rows data0;
          out = derive data0 data
      in (out,
          calculate_errors (map (\<lambda>(l, r). actual_epsilon r) out)
            (map (\<lambda>(l, r). predicted_epsilon r) out)))"

section \<open>models.py: the multi-station pipeline\<close>

text \<open>
  A station's table in the HDF5 file: its columns by name, in column order, each a
  list of values (the columns of one table have one length). The file is the map from
  its keys to their tables. A loaded frame also holds the \<open>Station\<close> column of
  strings, so its cells are numbers or strings.
\<close>

type_synonym table = "(string \<times> fl list) list"

datatype cell = Num fl | Str string

type_synonym dataframe = "(string \<times> cell list) list"

definition nrows :: "(string \<times> 'a list) list \<Rightarrow> nat" where
  "nrows df = (case df of [] \<Rightarrow> 0 | (k, col) # rest \<Rightarrow> length col)"

text \<open>\<open>pd.read_hdf(file_path, key=station)\<close> raises KeyError for a key the file lacks.\<close>

definition read_hdf :: "(string \<rightharpoonup> table) \<Rightarrow> string \<Rightarrow> error + table" where
  "read_hdf file key =
     (case file key of
        None \<Rightarrow> Inl (KeyError (''No object named '' @ key @ '' in the file''))
      | Some df \<Rightarrow> Inr df)"

text \<open>\<open>df['name']\<close> raises KeyError for a column the frame lacks.\<close>

definition getitem :: "(string \<times> 'a) list \<Rightarrow> string \<Rightarrow> error + 'a" where
  "getitem df name = (case map_of df name of None \<Rightarrow> Inl (KeyError name) | Some col \<Rightarrow> Inr col)"

text \<open>\<open>df['name'] = col\<close> replaces the column in place or appends it as the last one.\<close>

definition setitem :: "(string \<times> 'a) list \<Rightarrow> string \<Rightarrow> 'a \<Rightarrow> (string \<times> 'a) list" where
  "setitem df name col = AList.update name col df"

text \<open>The formulas of the pipeline, called on Series (columns of one frame).\<close>

definition calculate_cloud_fraction_series :: "fl list \<Rightarrow> fl list \<Rightarrow> fl list option \<Rightarrow> fl list" where
  "calculate_cloud_fraction_series ghi_m ghi_c clr_pct =
     (case clr_pct of
        Some p \<Rightarrow> map (\<lambda>x. Fin 1 - x) p
      | None \<Rightarrow>
          (let cloud_fraction = map2 (\<lambda>m c. Fin 1 - (m / c)) ghi_m ghi_c
           in map (\<lambda>x. clip x 0 1) cloud_fraction))"

definition compute_cloudy_LW_series ::
  "fl list \<Rightarrow> fl list \<Rightarrow> fl list \<Rightarrow> string \<Rightarrow> error + fl list" where
  "compute_cloudy_LW_series Ta ea c model =
     (let LW_clear = map2 brutsaert_clear_sky Ta ea
      in if model = ''maykut_church'' then Inr (map2 maykut_church LW_clear c)
         else if model = ''jacobs'' then Inr (map2 jacobs LW_clear c)
         else if model = ''suguita_brutsaert'' then Inr (map2 suguita_brutsaert LW_clear c)
         else if model = ''konzelmann''
           then Inr (map (\<lambda>(l, k, t). konzelmann l k t) (zip LW_clear (zip c Ta)))
         else if model = ''crawford_duchon''
           then Inr (map (\<lambda>(l, k, t). crawford_duchon l k t) (zip LW_clear (zip c Ta)))
         else if model = ''lhomme'' then Inr (map2 lhomme LW_clear c)
         else Inl (ValueError ''Invalid model name. Choose from predefined models.''))"

text \<open>\<open>df['Station'] = station\<close>: the scalar fills the column.\<close>

definition set_station :: "table \<Rightarrow> string \<Rightarrow> dataframe" where
  "set_station df station =
     setitem (map (\<lambda>(k, col). (k, map Num col)) df) ''Station''
       (replicate (nrows df) (Str station))"

text \<open>The body of the \<open>try\<close> of \<open>read_surfrad_h5\<close>, lines 96 to 101, for one station.\<close>

definition try_body :: "(string \<rightharpoonup> table) \<Rightarrow> string \<Rightarrow> error + dataframe" where
  "try_body file station =
     (case read_hdf file station of Inl e \<Rightarrow> Inl e | Inr df \<Rightarrow>
     (case getitem df ''ghi_m'' of Inl e \<Rightarrow> Inl e | Inr ghi_m \<Rightarrow>
     (case getitem df ''ghi_c'' of Inl e \<Rightarrow> Inl e | Inr ghi_c \<Rightarrow>
        let df1 = setitem df ''Cloud_Fraction''
                    (calculate_cloud_fraction_series ghi_m ghi_c (map_of df ''clr_pct'')) in
     (case getitem df1 ''dlw_m'' of Inl e \<Rightarrow> Inl e | Inr dlw_m \<Rightarrow>
     (case getitem df1 ''t_m'' of Inl e \<Rightarrow> Inl e | Inr t_m \<Rightarrow>
        let df2 = setitem df1 ''Emissivity_measured'' (map2 compute_emissivity dlw_m t_m) in
     (case getitem df2 ''t_m'' of Inl e \<Rightarrow> Inl e | Inr t_m2 \<Rightarrow>
        let df3 = setitem df2 ''Ta'' t_m2 in
     (case getitem df3 ''pw_hpa'' of Inl e \<Rightarrow> Inl e | Inr pw_hpa \<Rightarrow>
        let df4 = setitem df3 ''ea'' pw_hpa in
        Inr (set_station df4 station))))))))"

text \<open>
  The line that the handler prints, \<open>Warning: {e}. Skipping station {station}.\<close>,
  as the exception and the station it is formatted from.
\<close>

datatype printed = Warning error string

text \<open>
  The loop of lines 94 to 104, with the list \<open>combined_data\<close> and the lines printed
  so far. \<open>except KeyError\<close> handles a KeyError raised anywhere in the body; any
  other exception leaves the loop and the function.
\<close>

fun station_loop ::
  "(string \<rightharpoonup> table) \<Rightarrow> string list \<Rightarrow> dataframe list \<Rightarrow> printed list
     \<Rightarrow> printed list \<times> (error + dataframe list)" where
  "station_loop file [] combined_data out = (out, Inr combined_data)"
| "station_loop file (station # rest) combined_data out =
     (case try_body file station of
        Inr df \<Rightarrow> station_loop file rest (combined_data @ [df]) out
      | Inl (KeyError e) \<Rightarrow>
          station_loop file rest combined_data (out @ [Warning (KeyError e) station])
      | Inl err \<Rightarrow> (out, Inl err))"

text \<open>
  \<open>pd.concat(objs, ignore_index=True)\<close>: ValueError for an empty list; otherwise
  the rows of the frames one after another, under the union of their columns in the
  order of first appearance, with NaN where a frame lacks a column.
\<close>

definition concat_frames :: "dataframe list \<Rightarrow> error + dataframe" where
  "concat_frames objs =
     (if objs = [] then Inl (ValueError ''No objects to concatenate'')
      else Inr (map (\<lambda>k. (k, concat (map (\<lambda>df. case map_of df k of
                                                  Some col \<Rightarrow> col
                                                | None \<Rightarrow> replicate (nrows df) (Num NaN)) objs)))
                  (rev (remdups (rev (concat (map (map fst) objs)))))))"

text \<open>\<open>read_surfrad_h5\<close>: the lines printed and the frame returned or the exception raised.\<close>

definition read_surfrad_h5 ::
  "(string \<rightharpoonup> table) \<Rightarrow> string list \<Rightarrow> printed list \<times> (error + dataframe)" where
  "read_surfrad_h5 file stations =
     (case station_loop file stations [] [] of
        (out, Inl e) \<Rightarrow> (out, Inl e)
      | (out, Inr combined_data) \<Rightarrow> (out, concat_frames combined_data))"

record metrics =
  MBE :: fl
  RMSE :: fl
  rMBE :: fl
  rRMSE :: fl

text \<open>
  \<open>data['name']\<close> for a column used in arithmetic. A column holding a string
  raises TypeError at its first arithmetic use; the model raises it where the column
  is read.
\<close>

fun num_cells :: "cell list \<Rightarrow> error + fl list" where
  "num_cells [] = Inr []"
| "num_cells (Num x # cs) = (case num_cells cs of Inl e \<Rightarrow> Inl e | Inr xs \<Rightarrow> Inr (x # xs))"
| "num_cells (Str s # cs) = Inl TypeError"

definition num_column :: "dataframe \<Rightarrow> string \<Rightarrow> error + fl list" where
  "num_column data name =
     (case getitem data name of Inl e \<Rightarrow> Inl e | Inr col \<Rightarrow> num_cells col)"

text \<open>The body of the loop of \<open>validate_emissivity\<close>, lines 114 to 127, for one model.\<close>

definition model_metrics :: "dataframe \<Rightarrow> string \<Rightarrow> error + metrics" where
  "model_metrics data model =
     (case num_column data ''Ta'' of Inl e \<Rightarrow> Inl e | Inr Ta \<Rightarrow>
     (case num_column data ''ea'' of Inl e \<Rightarrow> Inl e | Inr ea \<Rightarrow>
     (case num_column data ''Cloud_Fraction'' of Inl e \<Rightarrow> Inl e | Inr c \<Rightarrow>
     (case compute_cloudy_LW_series Ta ea c model of Inl e \<Rightarrow> Inl e | Inr predicted_LW \<Rightarrow>
        let predicted_emissivity =
              map2 (\<lambda>lw t. lw / (Fin (5.67 / 10 ^ 8) * fpow t 4)) predicted_LW Ta in
     (case num_column data ''Emissivity_measured'' of Inl e \<Rightarrow> Inl e
      | Inr measured_emissivity \<Rightarrow>
        let err = map2 (-) predicted_emissivity measured_emissivity;
            mbe = mean err;
            rmse = fsqrt (mean (map (\<lambda>e. fpow e 2) err));
            rel_mbe = (mbe / mean measured_emissivity) * Fin 100;
            rel_rmse = (rmse / mean measured_emissivity) * Fin 100
        in Inr \<lparr>MBE = mbe, RMSE = rmse, rMBE = rel_mbe, rRMSE = rel_rmse\<rparr>)))))"

text \<open>The loop over \<open>models\<close> with the dictionary \<open>results\<close>, in insertion order.\<close>

fun validate_loop ::
  "dataframe \<Rightarrow> string list \<Rightarrow> (string \<times> metrics) list \<Rightarrow> error + (string \<times> metrics) list" where
  "validate_loop data [] results = Inr results"
| "validate_loop data (model # rest) results =
     (case model_metrics data model of
        Inl e \<Rightarrow> Inl e
      | Inr m \<Rightarrow> validate_loop data rest (AList.update model m results))"

definition validate_emissivity ::
  "dataframe \<Rightarrow> string list \<Rightarrow> error + (string \<times> metrics) list" where
  "validate_emissivity data models = validate_loop data models []"

section \<open>Definitions used in the statements\<close>

text \<open>The six model identifiers that the docstring of \<open>compute_cloudy_LW\<close> lists.\<close>

definition model_names :: "string list" where
  "model_names = [''maykut_church'', ''jacobs'', ''suguita_brutsaert'', ''konzelmann'',
     ''crawford_duchon'', ''lhomme'']"

text \<open>
  The five-row table of the end-to-end scenario: GHI, DHI and temp as given, every
  other column with a value that passes the filter.
\<close>

definition scenario_row :: "real \<Rightarrow> real \<Rightarrow> real \<Rightarrow> obs" where
  "scenario_row g d t =
     \<lparr>DHI = Fin d, GHI = Fin g, DNI = Fin 400, Clearsky_DNI = Fin 800, temp = Fin t,
      dlw = Fin 350, rh = Fin 50, site_elev = Fin 100, Solar_Zenith_Angle = Fin 30\<rparr>"

definition scenario_rows :: "obs list" where
  "scenario_rows =
     [scenario_row 500 100 20, scenario_row 0 50 20, scenario_row 500 100 20,
      scenario_row 500 100 95, scenario_row 500 100 20]"

text \<open>A table whose only row fails the filter: its GHI is 0.\<close>

definition zero_ghi_rows :: "obs list" where
  "zero_ghi_rows = [scenario_row 0 50 20]"

text \<open>The columns that the body of the \<open>try\<close> reads with \<open>df[...]\<close>, in the order of their first read.\<close>

definition required_columns :: "string list" where
  "required_columns = [''ghi_m'', ''ghi_c'', ''dlw_m'', ''t_m'', ''pw_hpa'']"

text \<open>A station loads when the file has its key and its table has every required column.\<close>

definition loads :: "(string \<rightharpoonup> table) \<Rightarrow> string \<Rightarrow> bool" where
  "loads file station =
     (case file station of
        None \<Rightarrow> False
      | Some df \<Rightarrow> list_all (\<lambda>c. map_of df c \<noteq> None) required_columns)"

text \<open>
  The exception of a station that does not load: the missing key, or else the first
  required column that its table lacks.
\<close>

definition skip_reason :: "(string \<rightharpoonup> table) \<Rightarrow> string \<Rightarrow> error" where
  "skip_reason file station =
     (case file station of
        None \<Rightarrow> KeyError (''No object named '' @ station @ '' in the file'')
      | Some df \<Rightarrow>
          (case find (\<lambda>c. map_of df c = None) required_columns of
             Some c \<Rightarrow> KeyError c
           | None \<Rightarrow> KeyError []))"

text \<open>The frame that the body of the \<open>try\<close> appends for a station.\<close>

definition loaded_frame :: "(string \<rightharpoonup> table) \<Rightarrow> string \<Rightarrow> dataframe" where
  "loaded_frame file station = (case try_body file station of Inr df \<Rightarrow> df | Inl e \<Rightarrow> [])"

text \<open>
  A file with three one-row stations: BON lacks the column \<open>ghi_m\<close>, DRA has the
  five required columns, TBL has them and \<open>clr_pct\<close>.
\<close>

definition dra_table :: table where
  "dra_table = [(''ghi_m'', [Fin 300]), (''ghi_c'', [Fin 600]), (''dlw_m'', [Fin 350]),
                (''t_m'', [Fin 290]), (''pw_hpa'', [Fin 10])]"

definition example_file :: "string \<rightharpoonup> table" where
  "example_file =
     map_of
       [(''BON'', [(''ghi_c'', [Fin 600]), (''dlw_m'', [Fin 350]), (''t_m'', [Fin 290]),
                   (''pw_hpa'', [Fin 10])]),
        (''DRA'', dra_table),
        (''TBL'', (''clr_pct'', [Fin 0.25]) # dra_table)]"

text \<open>
  The four error metrics as the specification words them, over the reals:
  \<open>bias = mean(predicted - actual)\<close>,
  \<open>rmse = sqrt(mean((predicted - actual)^2))\<close>,
  \<open>relativeBias% = bias / mean(actual) * 100\<close> and
  \<open>relativeRMSE% = rmse / mean(actual) * 100\<close>.
\<close>

definition spec_mean :: "real list \<Rightarrow> real" where
  "spec_mean xs = sum_list xs / real (length xs)"

definition spec_bias :: "real list \<Rightarrow> real list \<Rightarrow> real" where
  "spec_bias predicted actual = spec_mean (map2 (-) predicted actual)"

definition spec_rmse :: "real list \<Rightarrow> real list \<Rightarrow> real" where
  "spec_rmse predicted actual = sqrt (spec_mean (map (\<lambda>e. e\<^sup>2) (map2 (-) predicted actual)))"

definition spec_relative_bias :: "real list \<Rightarrow> real list \<Rightarrow> real" where
  "spec_relative_bias predicted actual = spec_bias predicted actual / spec_mean actual * 100"

definition spec_relative_rmse :: "real list \<Rightarrow> real list \<Rightarrow> real" where
  "spec_relative_rmse predicted actual = spec_rmse predicted actual / spec_mean actual * 100"

text \<open>A combined frame of one row, as \<open>read_surfrad_h5\<close> builds it.\<close>

definition example_data :: dataframe where
  "example_data =
     [(''Ta'', [Num (Fin 290)]), (''ea'', [Num (Fin 10)]), (''Cloud_Fraction'', [Num (Fin 0)]),
      (''Emissivity_measured'', [Num (Fin 0.8)]), (''Station'', [Str ''DRA''])]"

section \<open>Arithmetic on finite values\<close>

lemmas fl_ops = plus_fl_def uminus_fl_def minus_fl_def times_fl_def divide_fl_def
  less_fl_def less_eq_fl_def

lemma fl_fin_simps:
  "Fin a + Fin b = Fin (a + b)"
  "Fin a - Fin b = Fin (a - b)"
  "Fin a * Fin b = Fin (a * b)"
  "- Fin a = Fin (- a)"
  "(Fin a < Fin b) = (a < b)"
  "(Fin a \<le> Fin b) = (a \<le> b)"
  by (simp_all add: fl_ops)

lemma fl_div_fin: "b \<noteq> 0 \<Longrightarrow> Fin a / Fin b = Fin (a / b)"
  by (simp add: fl_ops)

lemma fmul_one_right: "x * Fin 1 = x"
  by (cases x) (simp_all add: fl_ops)

lemma fmul_commute: "x * y = y * (x::fl)"
  by (cases x; cases y) (simp_all add: fl_ops mult.commute)

section \<open>The model dispatcher\<close>

text \<open>
  C3. For all \<open>Ta\<close>, \<open>ea\<close> and \<open>c\<close>, \<open>compute_cloudy_LW\<close> raises exactly when
  the model identifier is none of the six enumerated names, and the exception is the
  ValueError of the last branch. For each enumerated name it returns that name's
  correction applied to the Brutsaert clear-sky flux of \<open>Ta\<close> and \<open>ea\<close>, with
  \<open>Ta\<close> passed on to \<open>konzelmann\<close> and \<open>crawford_duchon\<close>. The identifier
  \<open>not_a_real_model\<close> raises.
\<close>

theorem compute_cloudy_LW_dispatch:
  "((\<exists>e. compute_cloudy_LW Ta ea c (Some m) = Inl e) = (m \<notin> set model_names)) \<and>
   ((compute_cloudy_LW Ta ea c (Some m) =
       Inl (ValueError ''Invalid model name. Choose from predefined models.'')) =
     (m \<notin> set model_names)) \<and>
   compute_cloudy_LW Ta ea c (Some ''maykut_church'') =
     Inr (maykut_church (brutsaert_clear_sky Ta ea) c) \<and>
   compute_cloudy_LW Ta ea c (Some ''jacobs'') = Inr (jacobs (brutsaert_clear_sky Ta ea) c) \<and>
   compute_cloudy_LW Ta ea c (Some ''suguita_brutsaert'') =
     Inr (suguita_brutsaert (brutsaert_clear_sky Ta ea) c) \<and>
   compute_cloudy_LW Ta ea c (Some ''konzelmann'') =
     Inr (konzelmann (brutsaert_clear_sky Ta ea) c Ta) \<and>
   compute_cloudy_LW Ta ea c (Some ''crawford_duchon'') =
     Inr (crawford_duchon (brutsaert_clear_sky Ta ea) c Ta) \<and>
   compute_cloudy_LW Ta ea c (Some ''lhomme'') = Inr (lhomme (brutsaert_clear_sky Ta ea) c) \<and>
   compute_cloudy_LW Ta ea c (Some ''not_a_real_model'') =
     Inl (ValueError ''Invalid model name. Choose from predefined models.'')"
  by (simp add: compute_cloudy_LW_def Let_def model_names_def)

text \<open>
  C10. A call of \<open>compute_cloudy_LW\<close> that passes no model identifier applies the
  \<open>crawford_duchon\<close> correction: it returns what the call with the identifier
  \<open>crawford_duchon\<close> returns.
\<close>

theorem default_model_is_crawford_duchon:
  "compute_cloudy_LW Ta ea c None = Inr (crawford_duchon (brutsaert_clear_sky Ta ea) c Ta) \<and>
   compute_cloudy_LW Ta ea c None = compute_cloudy_LW Ta ea c (Some ''crawford_duchon'')"
  by (simp add: compute_cloudy_LW_def Let_def)

text \<open>
  C8. At cloud fraction 0 the \<open>jacobs\<close> correction returns the clear-sky flux
  unchanged, and the \<open>lhomme\<close> correction returns 1.03 times the clear-sky flux,
  which differs from the clear-sky flux whenever that flux is finite and not zero. The
  dispatcher returns the same two values for the two identifiers.
\<close>

theorem jacobs_lhomme_zero_cloud:
  "jacobs LW_clear (Fin 0) = LW_clear \<and>
   lhomme LW_clear (Fin 0) = Fin 1.03 * LW_clear \<and>
   (x \<noteq> 0 \<longrightarrow> lhomme (Fin x) (Fin 0) \<noteq> Fin x) \<and>
   compute_cloudy_LW Ta ea (Fin 0) (Some ''jacobs'') = Inr (brutsaert_clear_sky Ta ea) \<and>
   compute_cloudy_LW Ta ea (Fin 0) (Some ''lhomme'') =
     Inr (Fin 1.03 * brutsaert_clear_sky Ta ea)"
proof -
  have j: "jacobs y (Fin 0) = y" for y
    by (simp add: jacobs_def fl_fin_simps fmul_one_right)
  have l: "lhomme y (Fin 0) = Fin 1.03 * y" for y
    by (simp add: lhomme_def fl_fin_simps fmul_commute)
  have "lhomme (Fin x) (Fin 0) = Fin (1.03 * x)"
    unfolding l by (simp add: fl_fin_simps)
  then have n: "x \<noteq> 0 \<longrightarrow> lhomme (Fin x) (Fin 0) \<noteq> Fin x"
    by simp
  have cj: "compute_cloudy_LW Ta ea (Fin 0) (Some ''jacobs'') = Inr (brutsaert_clear_sky Ta ea)"
    by (simp add: j compute_cloudy_LW_def Let_def)
  have cl: "compute_cloudy_LW Ta ea (Fin 0) (Some ''lhomme'') =
      Inr (Fin 1.03 * brutsaert_clear_sky Ta ea)"
    by (simp add: l compute_cloudy_LW_def Let_def)
  from j [of LW_clear] l [of LW_clear] n cj cl show ?thesis
    by blast
qed

theorem jacobs_lhomme_zero_cloud_witness:
  "(100::real) \<noteq> 0 \<and> jacobs (Fin 100) (Fin 0) = Fin 100 \<and>
   lhomme (Fin 100) (Fin 0) = Fin 103 \<and> lhomme (Fin 100) (Fin 0) \<noteq> Fin 100"
  using jacobs_lhomme_zero_cloud [of "Fin 100" 100] by (simp add: fl_fin_simps)

section \<open>The clear-sky emissivity\<close>

lemma clear_sky_unfold:
  "calculate_clear_sky_emissivity T r z =
     Fin 0.6 + Fin 1.652 *
       fsqrt ((Fin 6.112 * fexp (Fin 17.625 * T / (T - Fin 30.11 + Fin 273.15)) * r / Fin 100)
              / Fin 1013.25)
     + Fin 0.15 * (fexp (- z / Fin 8500) - Fin 1)"
  by (simp add: calculate_clear_sky_emissivity_def Let_def H_def)

lemma clear_sky_finite:
  assumes "t - 30.11 + 273.15 \<noteq> 0" and "0 \<le> h"
  shows "calculate_clear_sky_emissivity (Fin t) (Fin h) (Fin k) =
     Fin (0.6 + 1.652 *
       sqrt ((6.112 * exp (17.625 * t / (t - 30.11 + 273.15)) * h / 100) / 1013.25)
     + 0.15 * (exp (- k / 8500) - 1))"
proof -
  have nn: "0 \<le> 6.112 * exp (17.625 * t / (t - 30.11 + 273.15)) * h / 100 / 1013.25"
    using assms(2) by simp
  have d: "Fin (17.625 * t) / Fin (t - 30.11 + 273.15) = Fin (17.625 * t / (t - 30.11 + 273.15))"
    using assms(1) by (rule fl_div_fin)
  show ?thesis
    unfolding clear_sky_unfold fl_fin_simps d fexp.simps
    using nn by (simp add: fl_fin_simps fl_div_fin)
qed

lemma clear_sky_above_one:
  "Fin 1 < calculate_clear_sky_emissivity (Fin 0) (Fin 20000) (Fin 0)"
proof -
  have v: "calculate_clear_sky_emissivity (Fin 0) (Fin 20000) (Fin 0) =
      Fin (0.6 + 1.652 * sqrt ((6.112 * exp (17.625 * 0 / (0 - 30.11 + 273.15)) * 20000 / 100) / 1013.25)
        + 0.15 * (exp (- 0 / 8500) - 1))"
    by (rule clear_sky_finite) simp_all
  have "(1::real) \<le> sqrt (24448 / 20265)"
    by (rule real_sqrt_ge_one) simp
  then show ?thesis
    unfolding v by (simp add: fl_fin_simps del: real_sqrt_ge_1_iff)
qed

text \<open>
  C7. The clear-sky emissivity is 0.6 + 1.652 * sqrt(pw / 1013.25) + 0.15 * (exp(-a / 8500) - 1)
  with pw = 6.112 * exp(17.625 * T / (T - 30.11 + 273.15)) * rh / 100, for every
  temperature \<open>T\<close>, relative humidity \<open>rh\<close> and altitude \<open>a\<close>, in the
  floating-point operations of the code. For finite inputs with a nonzero Magnus
  denominator and a relative humidity that is not negative, it is the finite value of
  this formula over the reals. The result is not clamped: at 0 degrees Celsius, 20000
  percent and altitude 0 it exceeds 1.
\<close>

theorem clear_sky_emissivity_formula:
  "calculate_clear_sky_emissivity T r z =
     Fin 0.6 + Fin 1.652 *
       fsqrt ((Fin 6.112 * fexp (Fin 17.625 * T / (T - Fin 30.11 + Fin 273.15)) * r / Fin 100)
              / Fin 1013.25)
     + Fin 0.15 * (fexp (- z / Fin 8500) - Fin 1) \<and>
   (t - 30.11 + 273.15 \<noteq> 0 \<and> 0 \<le> h \<longrightarrow>
    calculate_clear_sky_emissivity (Fin t) (Fin h) (Fin k) =
     Fin (0.6 + 1.652 *
       sqrt ((6.112 * exp (17.625 * t / (t - 30.11 + 273.15)) * h / 100) / 1013.25)
     + 0.15 * (exp (- k / 8500) - 1))) \<and>
   Fin 1 < calculate_clear_sky_emissivity (Fin 0) (Fin 20000) (Fin 0)"
  using clear_sky_unfold clear_sky_finite clear_sky_above_one by blast

theorem clear_sky_emissivity_formula_witness:
  "(20::real) - 30.11 + 273.15 \<noteq> 0 \<and> (0::real) \<le> 50 \<and>
   calculate_clear_sky_emissivity (Fin 20) (Fin 50) (Fin 100) =
     Fin (0.6 + 1.652 *
       sqrt ((6.112 * exp (17.625 * 20 / (20 - 30.11 + 273.15)) * 50 / 100) / 1013.25)
     + 0.15 * (exp (- 100 / 8500) - 1))"
proof -
  have h: "(20::real) - 30.11 + 273.15 \<noteq> 0 \<and> (0::real) \<le> 50"
    by simp
  from clear_sky_emissivity_formula [of "Fin 20" "Fin 50" "Fin 100" 20 50 100] h
  show ?thesis
    by blast
qed

section \<open>The single-station script: row filter and derived columns\<close>




lemma assign_column_nonempty:
  "data \<noteq> [] \<Longrightarrow> assign_column blank data s = map (\<lambda>(l, r). (l, r, aligned s l)) data"
  by (simp add: assign_column_def)

lemma assign_column_no_rows:
  "assign_column blank [] s = map (\<lambda>(l, v). (l, blank, aligned s l)) s"
  by (cases s) (simp_all add: assign_column_def case_prod_beta)

lemma assign_column_labels:
  "data \<noteq> [] \<or> s \<noteq> [] \<Longrightarrow> assign_column blank data s \<noteq> []"
  by (auto simp add: assign_column_def)

lemma assign_column_keeps_rows:
  assumes "data \<noteq> []"
  shows "map (\<lambda>(l, r, v). (l, r)) (assign_column blank data s) = data"
proof -
  have "map (\<lambda>(l, r, v). (l, r)) (map (\<lambda>(l, r). (l, r, aligned s l)) xs) = xs" for xs :: "(nat \<times> 'a) list"
    by (induction xs) auto
  with assms show ?thesis
    by (simp add: assign_column_nonempty)
qed

lemma derive_raw_first_assignment:
  assumes "assign_column nan_row data (captured_actual_epsilon data0) \<noteq> []"
  shows "map (\<lambda>(l, r). (l, raw r)) (derive data0 data) =
     map (\<lambda>(l, r, v). (l, r)) (assign_column nan_row data (captured_actual_epsilon data0))"
proof -
  define d1 where "d1 = assign_column nan_row data (captured_actual_epsilon data0)"
  define d2 where "d2 = assign_column (nan_row, NaN) d1 (captured_clear_sky data0)"
  define d3 where "d3 = assign_column ((nan_row, NaN), NaN) d2 (captured_cf data0)"
  define d4 where "d4 = assign_column (((nan_row, NaN), NaN), NaN) d3
      (map (\<lambda>(l, ((r, ae), ec), cf). (l, predict_epsilon_sky cf ec epsilon_clouds)) d3)"
  have n1: "d1 \<noteq> []" and n2: "d2 \<noteq> []" and n3: "d3 \<noteq> []"
    using assms by (simp_all add: d1_def d2_def d3_def assign_column_labels)
  have k2: "map (\<lambda>(l, r, v). (l, r)) d2 = d1"
    unfolding d2_def using n1 by (rule assign_column_keeps_rows)
  have k3: "map (\<lambda>(l, r, v). (l, r)) d3 = d2"
    unfolding d3_def using n2 by (rule assign_column_keeps_rows)
  have k4: "map (\<lambda>(l, r, v). (l, r)) d4 = d3"
    unfolding d4_def using n3 by (rule assign_column_keeps_rows)
  have "map (\<lambda>(l, r). (l, raw r)) (derive data0 data) =
      map (\<lambda>(l, r, v). (l, r)) (map (\<lambda>(l, r, v). (l, r)) (map (\<lambda>(l, r, v). (l, r))
        (map (\<lambda>(l, r, v). (l, r)) d4)))"
    by (simp add: derive_def Let_def d1_def d2_def d3_def d4_def case_prod_beta)
  also have "\<dots> = map (\<lambda>(l, r, v). (l, r)) d1"
    unfolding k4 k3 k2 ..
  finally show ?thesis
    unfolding d1_def .
qed




lemma scenario_filtered:
  "map fst (filter_rows (read_excel scenario_rows)) = [0, 2, 4]"
  by (simp add: filter_rows_def read_excel_def scenario_rows_def scenario_row_def
      condition_0_def condition_1_def condition_2_def condition_3_def condition_4_def fl_ops)




lemma captured_cf_rows:
  "captured_cf data0 =
     map (\<lambda>(l, r). (l, calculate_cf (DHI r) (GHI r) (DNI r) (Clearsky_DNI r))) data0"
  by (induction data0) (auto simp add: captured_cf_def Let_def column_def elementwise4_def)

lemma captured_actual_epsilon_rows:
  "captured_actual_epsilon data0 =
     map (\<lambda>(l, r). (l, calculate_actual_epsilon (temp r) (dlw r))) data0"
  by (induction data0) (auto simp add: captured_actual_epsilon_def Let_def column_def elementwise2_def)

lemma captured_clear_sky_rows:
  "captured_clear_sky data0 =
     map (\<lambda>(l, r). (l, calculate_clear_sky_emissivity (temp r) (rh r) (site_elev r))) data0"
  by (induction data0) (auto simp add: captured_clear_sky_def Let_def column_def elementwise3_def)

lemma captured_cf_labels: "map fst (captured_cf (read_excel rows)) = [0..<length rows]"
proof -
  have "map fst (captured_cf data0) = map fst data0" for data0
    unfolding captured_cf_rows by (induction data0) auto
  then show ?thesis
    by (simp add: read_excel_def)
qed

lemma aligned_own_row:
  assumes "(l, r) \<in> set (read_excel rows)"
  shows "aligned (map (\<lambda>(l, r). (l, f r)) (read_excel rows)) l = f r"
proof -
  have "distinct (map fst (read_excel rows))"
    by (simp add: read_excel_def)
  with assms have "map_of (read_excel rows) l = Some r"
    by simp
  then show ?thesis
    by (simp add: aligned_def map_of_map)
qed

lemma stored_cf_of_retained_row:
  assumes "(l, r) \<in> set (filter_rows (read_excel rows))"
  shows "aligned (captured_cf (read_excel rows)) l =
    calculate_cf (DHI r) (GHI r) (DNI r) (Clearsky_DNI r)"
proof -
  from assms have "(l, r) \<in> set (read_excel rows)"
    by (simp add: filter_rows_def)
  then show ?thesis
    unfolding captured_cf_rows by (rule aligned_own_row)
qed

lemma aligned_distinct:
  assumes "distinct (map fst xs)" and "(l, r) \<in> set xs"
  shows "aligned (map (\<lambda>(l, r). (l, g l r)) xs) l = g l r"
proof -
  have m: "map fst (map (\<lambda>(l, r). (l, g l r)) xs) = map fst xs"
    by (induction xs) auto
  have "distinct (map fst (map (\<lambda>(l, r). (l, g l r)) xs))"
    unfolding m by (rule assms(1))
  moreover from assms(2) have "(l, g l r) \<in> set (map (\<lambda>(l, r). (l, g l r)) xs)"
    by force
  ultimately have "map_of (map (\<lambda>(l, r). (l, g l r)) xs) l = Some (g l r)"
    by (rule map_of_is_SomeI)
  then show ?thesis
    by (simp add: aligned_def)
qed

lemma derive_nonempty:
  assumes "data \<noteq> []" and "distinct (map fst data)"
  shows "derive data0 data =
     map (\<lambda>(l, r).
            (l, \<lparr>raw = r,
                 actual_epsilon = aligned (captured_actual_epsilon data0) l,
                 epsilon_clear_sky = aligned (captured_clear_sky data0) l,
                 CF = aligned (captured_cf data0) l,
                 predicted_epsilon =
                   predict_epsilon_sky (aligned (captured_cf data0) l)
                     (aligned (captured_clear_sky data0) l) epsilon_clouds\<rparr>))
       data"
proof -
  define d3 where "d3 = map (\<lambda>(l, r). (l, ((r, aligned (captured_actual_epsilon data0) l),
      aligned (captured_clear_sky data0) l), aligned (captured_cf data0) l)) data"
  define predicted where "predicted = map (\<lambda>(l, r). (l, predict_epsilon_sky
      (aligned (captured_cf data0) l) (aligned (captured_clear_sky data0) l) epsilon_clouds)) data"
  have e3: "assign_column ((nan_row, NaN), NaN)
      (assign_column (nan_row, NaN) (assign_column nan_row data (captured_actual_epsilon data0))
        (captured_clear_sky data0)) (captured_cf data0) = d3"
    using assms(1) by (simp add: assign_column_nonempty d3_def case_prod_beta)
  have p: "map (\<lambda>(l, ((r, ae), ec), cf). (l, predict_epsilon_sky cf ec epsilon_clouds)) d3 =
      predicted"
    by (simp add: d3_def predicted_def case_prod_beta)
  have n3: "d3 \<noteq> []"
    using assms(1) by (simp add: d3_def)
  have a: "aligned predicted l = predict_epsilon_sky (aligned (captured_cf data0) l)
      (aligned (captured_clear_sky data0) l) epsilon_clouds" if "(l, r) \<in> set data" for l r
    unfolding predicted_def using assms(2) that by (rule aligned_distinct)
  have "derive data0 data =
      map (\<lambda>(l, r).
            (l, \<lparr>raw = r,
                 actual_epsilon = aligned (captured_actual_epsilon data0) l,
                 epsilon_clear_sky = aligned (captured_clear_sky data0) l,
                 CF = aligned (captured_cf data0) l,
                 predicted_epsilon = aligned predicted l\<rparr>)) data"
    unfolding derive_def Let_def e3 p
    by (simp add: assign_column_nonempty [OF n3]) (simp add: d3_def case_prod_beta)
  also have "\<dots> = map (\<lambda>(l, r).
            (l, \<lparr>raw = r,
                 actual_epsilon = aligned (captured_actual_epsilon data0) l,
                 epsilon_clear_sky = aligned (captured_clear_sky data0) l,
                 CF = aligned (captured_cf data0) l,
                 predicted_epsilon =
                   predict_epsilon_sky (aligned (captured_cf data0) l)
                     (aligned (captured_clear_sky data0) l) epsilon_clouds\<rparr>)) data"
    by (rule map_cong) (auto simp add: a)
  finally show ?thesis .
qed

text \<open>
  When no row passes the filter and the table has rows, the first assignment of a
  captured Series re-creates every loaded row in the empty frame, with NaN in the raw
  columns: the script then writes one row for each loaded row.
\<close>

lemma derive_no_row_kept:
  assumes "data0 \<noteq> []"
  shows "map (\<lambda>(l, r). (l, raw r)) (derive data0 []) = map (\<lambda>(l, r). (l, nan_row)) data0"
proof -
  have s: "captured_actual_epsilon data0 \<noteq> []"
    using assms by (simp add: captured_actual_epsilon_rows)
  then have "assign_column nan_row [] (captured_actual_epsilon data0) \<noteq> []"
    by (simp add: assign_column_labels)
  then have "map (\<lambda>(l, r). (l, raw r)) (derive data0 []) =
      map (\<lambda>(l, r, v). (l, r)) (assign_column nan_row [] (captured_actual_epsilon data0))"
    by (rule derive_raw_first_assignment)
  also have "\<dots> = map (\<lambda>(l, r). (l, nan_row)) data0"
    by (simp add: assign_column_no_rows captured_actual_epsilon_rows case_prod_beta)
  finally show ?thesis .
qed

lemma no_row_passes_example:
  "filter_rows (read_excel zero_ghi_rows) = [] \<and>
   map (\<lambda>(l, r). (l, raw r)) (fst (HIdata_error zero_ghi_rows)) = [(0, nan_row)]"
proof -
  have f: "filter_rows (read_excel zero_ghi_rows) = []"
    by (simp add: filter_rows_def read_excel_def zero_ghi_rows_def scenario_row_def
        condition_1_def fl_ops)
  have "map (\<lambda>(l, r). (l, raw r)) (derive (read_excel zero_ghi_rows) []) =
      map (\<lambda>(l, r). (l, nan_row)) (read_excel zero_ghi_rows)"
    by (rule derive_no_row_kept) (simp add: read_excel_def zero_ghi_rows_def)
  also have "\<dots> = [(0, nan_row)]"
    by (simp add: read_excel_def zero_ghi_rows_def)
  finally have d: "map (\<lambda>(l, r). (l, raw r)) (derive (read_excel zero_ghi_rows) []) =
      [(0, nan_row)]" .
  have "fst (HIdata_error zero_ghi_rows) = derive (read_excel zero_ghi_rows) []"
    unfolding HIdata_error_def Let_def f by simp
  with d f show ?thesis
    by simp
qed

lemma calculate_cf_zero_ghi:
  "calculate_cf (Fin 50) (Fin 0) (Fin 400) (Fin 800) = PInf"
  by (simp add: calculate_cf_def Let_def fl_ops fpow_def a1_def a2_def m1_def m2_def n1_def)

text \<open>
  C1. The script captures its column Series before the filter and calls
  \<open>calculate_cf\<close> on the captured Series, so the formula is evaluated on every
  loaded row, also on the rows that the filter removes. On the five-row scenario table
  the filter keeps the labels 0, 2 and 4, yet \<open>calculate_cf\<close> yields a value for
  each of the labels 0 to 4; for label 1, whose GHI is 0, it divides DHI by the zero
  GHI, which is \<open>inf\<close>, and the value it computes there is \<open>inf\<close>.
\<close>

theorem calculate_cf_evaluated_on_removed_row:
  "map fst (captured_cf (read_excel rows)) = [0..<length rows] \<and>
   map fst (filter_rows (read_excel scenario_rows)) = [0, 2, 4] \<and>
   map fst (captured_cf (read_excel scenario_rows)) = [0, 1, 2, 3, 4] \<and>
   GHI (scenario_rows ! 1) = Fin 0 \<and>
   DHI (scenario_rows ! 1) / GHI (scenario_rows ! 1) = PInf \<and>
   captured_cf (read_excel scenario_rows) ! 1 = (1, PInf)"
proof -
  have g: "GHI (scenario_rows ! 1) = Fin 0 \<and> DHI (scenario_rows ! 1) / GHI (scenario_rows ! 1) = PInf"
    by (simp add: scenario_rows_def scenario_row_def fl_ops)
  have l: "map fst (captured_cf (read_excel scenario_rows)) = [0, 1, 2, 3, 4]"
    unfolding captured_cf_labels by (simp add: scenario_rows_def upt_rec)
  have c: "captured_cf (read_excel scenario_rows) ! 1 = (1, PInf)"
    unfolding captured_cf_rows
    by (simp add: read_excel_def scenario_rows_def scenario_row_def calculate_cf_zero_ghi)
  from captured_cf_labels scenario_filtered g l c show ?thesis
    by blast
qed

section \<open>The multi-station pipeline: skipped stations and the cloud fraction\<close>

lemma map_of_setitem: "map_of (setitem df k v) k' = (if k' = k then Some v else map_of df k')"
  by (simp add: setitem_def update_conv')

lemma getitem_setitem_other: "k' \<noteq> k \<Longrightarrow> getitem (setitem df k v) k' = getitem df k'"
  by (simp add: getitem_def map_of_setitem)

lemma try_body_flat:
  "try_body file station =
     (case file station of
        None \<Rightarrow> Inl (KeyError (''No object named '' @ station @ '' in the file''))
      | Some df \<Rightarrow>
     (case map_of df ''ghi_m'' of None \<Rightarrow> Inl (KeyError ''ghi_m'') | Some ghi_m \<Rightarrow>
     (case map_of df ''ghi_c'' of None \<Rightarrow> Inl (KeyError ''ghi_c'') | Some ghi_c \<Rightarrow>
     (case map_of df ''dlw_m'' of None \<Rightarrow> Inl (KeyError ''dlw_m'') | Some dlw_m \<Rightarrow>
     (case map_of df ''t_m'' of None \<Rightarrow> Inl (KeyError ''t_m'') | Some t_m \<Rightarrow>
     (case map_of df ''pw_hpa'' of None \<Rightarrow> Inl (KeyError ''pw_hpa'') | Some pw_hpa \<Rightarrow>
        Inr (set_station
               (setitem
                  (setitem
                     (setitem
                        (setitem df ''Cloud_Fraction''
                           (calculate_cloud_fraction_series ghi_m ghi_c (map_of df ''clr_pct'')))
                        ''Emissivity_measured'' (map2 compute_emissivity dlw_m t_m))
                     ''Ta'' t_m)
                  ''ea'' pw_hpa)
               station)))))))"
  by (simp add: try_body_def read_hdf_def getitem_def map_of_setitem Let_def
      split: option.splits)

lemma try_body_loads: "loads file station \<Longrightarrow> \<exists>df. try_body file station = Inr df"
  by (auto simp add: try_body_flat loads_def required_columns_def split: option.splits)

lemma try_body_skips:
  "\<not> loads file station \<Longrightarrow> try_body file station = Inl (skip_reason file station)"
  by (auto simp add: try_body_flat loads_def skip_reason_def required_columns_def
      split: option.splits)

lemma try_body_fails_iff: "(\<exists>e. try_body file station = Inl e) = (\<not> loads file station)"
  using try_body_loads try_body_skips by (metis Inl_Inr_False)

lemma skip_reason_KeyError: "\<exists>k. skip_reason file station = KeyError k"
  by (simp add: skip_reason_def split: option.splits)

lemma station_loop_result:
  "station_loop file stations combined_data out =
     (out @ map (\<lambda>s. Warning (skip_reason file s) s) (filter (\<lambda>s. \<not> loads file s) stations),
      Inr (combined_data @ map (loaded_frame file) (filter (loads file) stations)))"
proof (induction stations arbitrary: combined_data out)
  case Nil
  show ?case by simp
next
  case (Cons station rest)
  show ?case
  proof (cases "loads file station")
    case True
    then obtain df where "try_body file station = Inr df"
      using try_body_loads by blast
    with True Cons show ?thesis
      by (simp add: loaded_frame_def)
  next
    case False
    obtain k where k: "skip_reason file station = KeyError k"
      using skip_reason_KeyError by blast
    with False have "try_body file station = Inl (KeyError k)"
      using try_body_skips by metis
    with False k Cons show ?thesis
      by simp
  qed
qed

lemma read_surfrad_h5_result:
  "read_surfrad_h5 file stations =
     (map (\<lambda>s. Warning (skip_reason file s) s) (filter (\<lambda>s. \<not> loads file s) stations),
      concat_frames (map (loaded_frame file) (filter (loads file) stations)))"
  by (simp add: read_surfrad_h5_def station_loop_result)

text \<open>
  C2, as the code has it. The body of the \<open>try\<close> fails for a station exactly when
  the file lacks the station's key or the station's table lacks one of the columns
  \<open>ghi_m\<close>, \<open>ghi_c\<close>, \<open>dlw_m\<close>, \<open>t_m\<close>, \<open>pw_hpa\<close>. In both cases the
  station is skipped with a warning that names the KeyError, and the loop goes on: the
  function prints one warning for each such station and concatenates the frames of all
  the other stations, in order. No missing key and no missing column is raised to the
  caller.
\<close>

theorem read_surfrad_h5_skips_every_KeyError:
  "((\<exists>e. try_body file station = Inl e) = (\<not> loads file station)) \<and>
   read_surfrad_h5 file stations =
     (map (\<lambda>s. Warning (skip_reason file s) s) (filter (\<lambda>s. \<not> loads file s) stations),
      concat_frames (map (loaded_frame file) (filter (loads file) stations)))"
  using try_body_fails_iff read_surfrad_h5_result by blast

text \<open>
  C2 as stated fails: the table of BON is in the file and lacks the column
  \<open>ghi_m\<close>; \<open>read_surfrad_h5\<close> prints a warning for BON and returns the frame
  of DRA instead of raising.
\<close>

theorem schema_error_is_skipped:
  "(\<exists>t. example_file ''BON'' = Some t \<and> map_of t ''ghi_m'' = None) \<and>
   fst (read_surfrad_h5 example_file [''BON'', ''DRA'']) =
     [Warning (KeyError ''ghi_m'') ''BON''] \<and>
   (\<exists>df. snd (read_surfrad_h5 example_file [''BON'', ''DRA'']) = Inr df \<and>
         getitem df ''Station'' = Inr [Str ''DRA''])"
proof -
  have b: "\<not> loads example_file ''BON''"
    by (simp add: loads_def example_file_def dra_table_def required_columns_def)
  have d: "loads example_file ''DRA''"
    by (simp add: loads_def example_file_def dra_table_def required_columns_def)
  have r: "skip_reason example_file ''BON'' = KeyError ''ghi_m''"
    by (simp add: skip_reason_def example_file_def dra_table_def required_columns_def)
  have t: "\<exists>t. example_file ''BON'' = Some t \<and> map_of t ''ghi_m'' = None"
    by (simp add: example_file_def)
  have f: "map (loaded_frame example_file) (filter (loads example_file) [''BON'', ''DRA''])
      = [loaded_frame example_file ''DRA'']"
    by (simp add: b d)
  have s: "\<exists>df. concat_frames [loaded_frame example_file ''DRA''] = Inr df \<and>
      getitem df ''Station'' = Inr [Str ''DRA'']"
    by (simp add: loaded_frame_def try_body_flat example_file_def dra_table_def
        set_station_def getitem_def nrows_def setitem_def concat_frames_def)
  have w: "fst (read_surfrad_h5 example_file [''BON'', ''DRA'']) =
     [Warning (KeyError ''ghi_m'') ''BON'']"
    by (simp add: read_surfrad_h5_result b d r)
  have "snd (read_surfrad_h5 example_file [''BON'', ''DRA'']) =
     concat_frames [loaded_frame example_file ''DRA'']"
    unfolding read_surfrad_h5_result snd_conv f ..
  with s t w show ?thesis
    by simp
qed

text \<open>
  C9. When the file has none of the requested keys, \<open>read_surfrad_h5\<close> prints one
  warning for each station and then raises the ValueError of \<open>pd.concat\<close> on the
  empty list; it returns no table.
\<close>

theorem all_stations_missing_raises:
  assumes "\<forall>s \<in> set stations. file s = None"
  shows "read_surfrad_h5 file stations =
     (map (\<lambda>s. Warning (KeyError (''No object named '' @ s @ '' in the file'')) s) stations,
      Inl (ValueError ''No objects to concatenate''))"
proof -
  have n: "\<forall>s \<in> set stations. \<not> loads file s"
    using assms by (simp add: loads_def)
  then have f: "filter (loads file) stations = []" "filter (\<lambda>s. \<not> loads file s) stations = stations"
    by simp_all
  have "map (\<lambda>s. Warning (skip_reason file s) s) stations =
      map (\<lambda>s. Warning (KeyError (''No object named '' @ s @ '' in the file'')) s) stations"
    using assms by (intro map_cong) (simp_all add: skip_reason_def)
  then show ?thesis
    by (simp add: read_surfrad_h5_result f concat_frames_def)
qed

theorem all_stations_missing_raises_witness:
  "read_surfrad_h5 Map.empty [''BON'', ''DRA''] =
     ([Warning (KeyError ''No object named BON in the file'') ''BON'',
       Warning (KeyError ''No object named DRA in the file'') ''DRA''],
      Inl (ValueError ''No objects to concatenate''))"
  using all_stations_missing_raises [of "[''BON'', ''DRA'']" Map.empty] by simp

lemma cloud_fraction_series_eq:
  "calculate_cloud_fraction_series ghi_m ghi_c clr_pct =
     (case clr_pct of
        Some p \<Rightarrow> map (\<lambda>x. Fin 1 - x) p
      | None \<Rightarrow> map2 (\<lambda>m c. clip (Fin 1 - m / c) 0 1) ghi_m ghi_c)"
  by (simp add: calculate_cloud_fraction_series_def Let_def case_prod_beta split: option.splits)

lemma cloud_fraction_series_rows:
  "calculate_cloud_fraction_series ghi_m ghi_c (Some p) =
     map (\<lambda>x. calculate_cloud_fraction m c (Some x)) p \<and>
   calculate_cloud_fraction_series ghi_m ghi_c None =
     map2 (\<lambda>m c. calculate_cloud_fraction m c None) ghi_m ghi_c"
  by (simp add: cloud_fraction_series_eq calculate_cloud_fraction_def Let_def)

lemma cloud_fraction_scalar:
  "calculate_cloud_fraction m c (Some p) = Fin 1 - p \<and>
   calculate_cloud_fraction m c None = clip (Fin 1 - m / c) 0 1"
  by (simp add: calculate_cloud_fraction_def Let_def)

lemma cloud_fraction_finite:
  "b \<noteq> 0 \<Longrightarrow> calculate_cloud_fraction (Fin a) (Fin b) None = Fin (min (max (1 - a / b) 0) 1)"
  by (simp add: calculate_cloud_fraction_def Let_def fl_fin_simps fl_div_fin)

lemma getitem_set_station:
  assumes "k \<noteq> ''Station''"
  shows "getitem (set_station df station) k =
     (case map_of df k of None \<Rightarrow> Inl (KeyError k) | Some col \<Rightarrow> Inr (map Num col))"
proof -
  have "map_of (map (\<lambda>(k, col). (k, map Num col)) df) k = map_option (map Num) (map_of df k)"
    by (simp add: map_of_map)
  with assms show ?thesis
    by (simp add: set_station_def getitem_def map_of_setitem split: option.splits)
qed

lemma loaded_cloud_fraction:
  assumes "file station = Some df" and "try_body file station = Inr out"
    and "map_of df ''ghi_m'' = Some ghi_m" and "map_of df ''ghi_c'' = Some ghi_c"
  shows "getitem out ''Cloud_Fraction'' =
     Inr (map Num (case map_of df ''clr_pct'' of
                     Some p \<Rightarrow> map (\<lambda>x. Fin 1 - x) p
                   | None \<Rightarrow> map2 (\<lambda>m c. clip (Fin 1 - m / c) 0 1) ghi_m ghi_c))"
proof -
  from assms obtain df4 where out: "out = set_station df4 station"
    and cf: "map_of df4 ''Cloud_Fraction'' =
      Some (calculate_cloud_fraction_series ghi_m ghi_c (map_of df ''clr_pct''))"
    by (auto simp add: try_body_flat map_of_setitem split: option.splits)
  show ?thesis
    unfolding out by (simp add: getitem_set_station cf cloud_fraction_series_eq)
qed

text \<open>
  C6. In the frame loaded for a station, the column \<open>Cloud_Fraction\<close> is
  \<open>1 - clr_pct\<close>, row by row, when the table has a column \<open>clr_pct\<close>, and
  otherwise \<open>1 - ghi_m / ghi_c\<close> clipped to the interval from 0 to 1, row by row.
  For one row, \<open>calculate_cloud_fraction\<close> returns these two values; with finite
  \<open>ghi_m\<close> and a finite nonzero \<open>ghi_c\<close> the clipped value is
  \<open>min (max (1 - ghi_m / ghi_c) 0) 1\<close>.
\<close>

theorem cloud_fraction_per_row:
  "(file station = Some df \<and> try_body file station = Inr out \<and>
    map_of df ''ghi_m'' = Some ghi_m \<and> map_of df ''ghi_c'' = Some ghi_c \<longrightarrow>
    getitem out ''Cloud_Fraction'' =
     Inr (map Num (case map_of df ''clr_pct'' of
                     Some p \<Rightarrow> map (\<lambda>x. Fin 1 - x) p
                   | None \<Rightarrow> map2 (\<lambda>m c. clip (Fin 1 - m / c) 0 1) ghi_m ghi_c))) \<and>
   calculate_cloud_fraction m c (Some p) = Fin 1 - p \<and>
   calculate_cloud_fraction m c None = clip (Fin 1 - m / c) 0 1 \<and>
   (b \<noteq> 0 \<longrightarrow> calculate_cloud_fraction (Fin a) (Fin b) None = Fin (min (max (1 - a / b) 0) 1))"
  using loaded_cloud_fraction cloud_fraction_scalar cloud_fraction_finite by blast

lemma try_body_loaded_frame: "loads file station \<Longrightarrow> try_body file station = Inr (loaded_frame file station)"
  using try_body_loads by (fastforce simp add: loaded_frame_def)

theorem cloud_fraction_per_row_witness:
  "getitem (loaded_frame example_file ''DRA'') ''Cloud_Fraction'' = Inr [Num (Fin 0.5)] \<and>
   getitem (loaded_frame example_file ''TBL'') ''Cloud_Fraction'' = Inr [Num (Fin 0.75)] \<and>
   calculate_cloud_fraction (Fin 300) (Fin 600) None = Fin 0.5"
proof -
  have d: "example_file ''DRA'' = Some dra_table \<and>
      try_body example_file ''DRA'' = Inr (loaded_frame example_file ''DRA'') \<and>
      map_of dra_table ''ghi_m'' = Some [Fin 300] \<and> map_of dra_table ''ghi_c'' = Some [Fin 600]"
    by (simp add: try_body_loaded_frame loads_def example_file_def dra_table_def
        required_columns_def)
  have t: "example_file ''TBL'' = Some ((''clr_pct'', [Fin 0.25]) # dra_table) \<and>
      try_body example_file ''TBL'' = Inr (loaded_frame example_file ''TBL'') \<and>
      map_of ((''clr_pct'', [Fin 0.25]) # dra_table) ''ghi_m'' = Some [Fin 300] \<and>
      map_of ((''clr_pct'', [Fin 0.25]) # dra_table) ''ghi_c'' = Some [Fin 600]"
    by (simp add: try_body_loaded_frame loads_def example_file_def dra_table_def
        required_columns_def)
  have z: "(600::real) \<noteq> 0"
    by simp
  from d cloud_fraction_per_row [of example_file "''DRA''" dra_table
      "loaded_frame example_file ''DRA''" "[Fin 300]" "[Fin 600]" _ _ _ 600 300]
  have 1: "getitem (loaded_frame example_file ''DRA'') ''Cloud_Fraction'' = Inr [Num (Fin 0.5)]"
    and 3: "calculate_cloud_fraction (Fin 300) (Fin 600) None = Fin 0.5"
    by (simp_all add: dra_table_def fl_ops)
  from t cloud_fraction_per_row [of example_file "''TBL''" "(''clr_pct'', [Fin 0.25]) # dra_table"
      "loaded_frame example_file ''TBL''" "[Fin 300]" "[Fin 600]"]
  have 2: "getitem (loaded_frame example_file ''TBL'') ''Cloud_Fraction'' = Inr [Num (Fin 0.75)]"
    by (simp add: dra_table_def fl_ops)
  from 1 2 3 show ?thesis
    by blast
qed

section \<open>The error metrics\<close>

lemma foldl_fadd_Fin: "foldl (+) (Fin s) (map Fin xs) = Fin (s + sum_list xs)"
  by (induction xs arbitrary: s) (simp_all add: fl_fin_simps add.assoc)

lemma fsum_Fin: "fsum (map Fin xs) = Fin (sum_list xs)"
  by (simp add: fsum_def foldl_fadd_Fin)

lemma filter_isnan_Fin: "filter (\<lambda>x. \<not> isnan x) (map Fin xs) = map Fin xs"
  by (induction xs) simp_all

lemma mean_Fin: "xs \<noteq> [] \<Longrightarrow> mean (map Fin xs) = Fin (spec_mean xs)"
  by (simp add: mean_def filter_isnan_Fin fsum_Fin fl_div_fin spec_mean_def)

lemma fpow_Fin_2: "fpow (Fin e) 2 = Fin (e\<^sup>2)"
  by (simp add: fpow_def)

lemma map2_minus_Fin: "map2 (-) (map Fin p) (map Fin a) = map Fin (map2 (-) p a)"
  by (simp add: zip_map_map fl_fin_simps case_prod_beta)

lemma spec_mean_squares_nonneg: "0 \<le> spec_mean (map (\<lambda>e. e\<^sup>2) es)"
  unfolding spec_mean_def by (intro divide_nonneg_nonneg sum_list_nonneg) auto

lemma calculate_errors_finite:
  assumes "length p = length a" and "spec_mean a \<noteq> 0"
  shows "calculate_errors (map Fin a) (map Fin p) =
     (Fin (spec_bias p a), Fin (spec_rmse p a), Fin (spec_relative_bias p a), Fin (spec_relative_rmse p a))"
proof -
  from assms(2) have a: "a \<noteq> []"
    by (auto simp add: spec_mean_def)
  with assms(1) have e: "map2 (-) p a \<noteq> []"
    by (cases p; cases a) simp_all
  have m: "mean (map2 (-) (map Fin p) (map Fin a)) = Fin (spec_bias p a)"
    unfolding map2_minus_Fin spec_bias_def using e by (rule mean_Fin)
  have sq: "map (\<lambda>e. fpow e 2) (map Fin (map2 (-) p a)) = map Fin (map (\<lambda>e. e\<^sup>2) (map2 (-) p a))"
    by (simp add: fpow_Fin_2)
  have "map (\<lambda>e. e\<^sup>2) (map2 (-) p a) \<noteq> []"
    using e by simp
  then have "mean (map Fin (map (\<lambda>e. e\<^sup>2) (map2 (-) p a))) =
      Fin (spec_mean (map (\<lambda>e. e\<^sup>2) (map2 (-) p a)))"
    by (rule mean_Fin)
  then have msq: "mean (map (\<lambda>e. fpow e 2) (map2 (-) (map Fin p) (map Fin a))) =
      Fin (spec_mean (map (\<lambda>e. e\<^sup>2) (map2 (-) p a)))"
    unfolding map2_minus_Fin sq .
  have r: "fsqrt (mean (map (\<lambda>e. fpow e 2) (map2 (-) (map Fin p) (map Fin a)))) =
      Fin (spec_rmse p a)"
    unfolding msq spec_rmse_def fsqrt.simps
    using spec_mean_squares_nonneg [of "map2 (-) p a"] by simp
  have ma: "mean (map Fin a) = Fin (spec_mean a)"
    using a by (rule mean_Fin)
  show ?thesis
    unfolding calculate_errors_def Let_def m r ma
    using assms(2)
    by (simp add: fl_div_fin fl_fin_simps spec_relative_bias_def spec_relative_rmse_def)
qed

lemma model_metrics_calculate_errors:
  assumes "num_column data ''Ta'' = Inr Ta" and "num_column data ''ea'' = Inr ea"
    and "num_column data ''Cloud_Fraction'' = Inr c"
    and "compute_cloudy_LW_series Ta ea c model = Inr lw"
    and "num_column data ''Emissivity_measured'' = Inr measured"
  shows "model_metrics data model =
     (case calculate_errors measured
             (map2 (\<lambda>lw t. lw / (Fin (5.67 / 10 ^ 8) * fpow t 4)) lw Ta) of
        (mbe, rms, rel_mbe, rel_rmse) \<Rightarrow>
          Inr \<lparr>MBE = mbe, RMSE = rms, rMBE = rel_mbe, rRMSE = rel_rmse\<rparr>)"
  unfolding model_metrics_def calculate_errors_def using assms by (simp add: Let_def)

lemma model_metrics_finite:
  assumes "num_column data ''Ta'' = Inr Ta" and "num_column data ''ea'' = Inr ea"
    and "num_column data ''Cloud_Fraction'' = Inr c"
    and "compute_cloudy_LW_series Ta ea c model = Inr lw"
    and "map2 (\<lambda>lw t. lw / (Fin (5.67 / 10 ^ 8) * fpow t 4)) lw Ta = map Fin p"
    and "num_column data ''Emissivity_measured'' = Inr (map Fin a)"
    and "length p = length a" and "spec_mean a \<noteq> 0"
  shows "model_metrics data model =
     Inr \<lparr>MBE = Fin (spec_bias p a), RMSE = Fin (spec_rmse p a), rMBE = Fin (spec_relative_bias p a),
          rRMSE = Fin (spec_relative_rmse p a)\<rparr>"
  unfolding model_metrics_calculate_errors [OF assms(1-4) assms(6)] assms(5)
    calculate_errors_finite [OF assms(7,8)]
  by simp

lemma validate_loop_entries:
  assumes "validate_loop data models acc = Inr results"
  shows "map_of results k =
     (if k \<in> set models then (case model_metrics data k of Inr m \<Rightarrow> Some m | Inl e \<Rightarrow> None)
      else map_of acc k)"
  using assms
proof (induction models arbitrary: acc)
  case Nil
  then show ?case by simp
next
  case (Cons model rest)
  from Cons.prems obtain m where m: "model_metrics data model = Inr m"
    and r: "validate_loop data rest (AList.update model m acc) = Inr results"
    by (auto split: sum.splits)
  from Cons.IH [OF r] m show ?case
    by (auto simp add: update_conv')
qed

lemma validate_emissivity_entry:
  assumes "validate_emissivity data models = Inr results" and "model \<in> set models"
  shows "\<exists>m. model_metrics data model = Inr m \<and> map_of results model = Some m"
proof -
  have v: "validate_loop data models [] = Inr results"
    using assms(1) by (simp add: validate_emissivity_def)
  have ok: "\<exists>m. model_metrics data k = Inr m" if "k \<in> set models'" 
    and "validate_loop data models' acc = Inr res" for k models' acc res
    using that
  proof (induction models' arbitrary: acc)
    case Nil
    then show ?case by simp
  next
    case (Cons x xs)
    then show ?case by (auto split: sum.splits)
  qed
  from ok [OF assms(2) v] obtain m where m: "model_metrics data model = Inr m" ..
  with validate_loop_entries [OF v, of model] assms(2) show ?thesis
    by simp
qed

lemma validate_loop_returns:
  assumes "\<forall>model \<in> set models. \<exists>m. model_metrics data model = Inr m"
  shows "\<exists>results. validate_loop data models acc = Inr results"
  using assms
proof (induction models arbitrary: acc)
  case Nil
  show ?case by simp
next
  case (Cons model rest)
  then obtain m where "model_metrics data model = Inr m"
    by auto
  with Cons show ?case
    by simp
qed

text \<open>
  C5. For finite sequences \<open>predicted\<close> and \<open>actual\<close> of one length with a
  nonzero mean of \<open>actual\<close>, \<open>calculate_errors\<close> returns the bias
  \<open>mean(predicted - actual)\<close>, the rmse \<open>sqrt(mean((predicted - actual)^2))\<close>,
  \<open>bias / mean(actual) * 100\<close> and \<open>rmse / mean(actual) * 100\<close>. The body of
  the loop of \<open>validate_emissivity\<close> returns the same four values for the predicted
  emissivity of the model and the measured emissivity; the dictionary that
  \<open>validate_emissivity\<close> returns holds, for every model of the list, the metrics of
  that body; and \<open>validate_emissivity\<close> returns whenever the body succeeds for
  every model of the list.
\<close>

theorem error_metrics_formulas:
  "(length p = length a \<and> spec_mean a \<noteq> 0 \<longrightarrow>
      calculate_errors (map Fin a) (map Fin p) =
        (Fin (spec_bias p a), Fin (spec_rmse p a), Fin (spec_relative_bias p a),
         Fin (spec_relative_rmse p a))) \<and>
   (num_column data ''Ta'' = Inr Ta \<and> num_column data ''ea'' = Inr ea \<and>
    num_column data ''Cloud_Fraction'' = Inr c \<and>
    compute_cloudy_LW_series Ta ea c model = Inr lw \<and>
    map2 (\<lambda>lw t. lw / (Fin (5.67 / 10 ^ 8) * fpow t 4)) lw Ta = map Fin p \<and>
    num_column data ''Emissivity_measured'' = Inr (map Fin a) \<and>
    length p = length a \<and> spec_mean a \<noteq> 0 \<longrightarrow>
      model_metrics data model =
        Inr \<lparr>MBE = Fin (spec_bias p a), RMSE = Fin (spec_rmse p a), rMBE = Fin (spec_relative_bias p a),
             rRMSE = Fin (spec_relative_rmse p a)\<rparr>) \<and>
   (validate_emissivity data models = Inr results \<and> model \<in> set models \<longrightarrow>
      (\<exists>m. model_metrics data model = Inr m \<and> map_of results model = Some m)) \<and>
   ((\<forall>k \<in> set models. \<exists>m. model_metrics data k = Inr m) \<longrightarrow>
      (\<exists>res. validate_emissivity data models = Inr res))"
proof -
  have d: "(\<forall>k \<in> set models. \<exists>m. model_metrics data k = Inr m) \<longrightarrow>
      (\<exists>res. validate_emissivity data models = Inr res)"
    unfolding validate_emissivity_def using validate_loop_returns by blast
  from calculate_errors_finite model_metrics_finite validate_emissivity_entry d
  show ?thesis
    by blast
qed

lemma example_brutsaert:
  "brutsaert_clear_sky (Fin 290) (Fin 10) =
     Fin (1.24 * (10 / 290) powr (1 / 7) * (5.67 / 10 ^ 8) * 290 ^ 4)"
  by (simp add: brutsaert_clear_sky_def Let_def fpow_def fl_ops sigma_def)

lemma example_predicted:
  "map2 (\<lambda>lw t. lw / (Fin (5.67 / 10 ^ 8) * fpow t 4))
     [jacobs (brutsaert_clear_sky (Fin 290) (Fin 10)) (Fin 0)] [Fin 290] =
   map Fin [1.24 * (10 / 290) powr (1 / 7) * (5.67 / 10 ^ 8) * 290 ^ 4 / (5.67 / 10 ^ 8 * 290 ^ 4)]"
  unfolding example_brutsaert by (simp add: jacobs_def fpow_def fl_ops)

theorem error_metrics_formulas_witness:
  "calculate_errors [Fin 1, Fin 1, Fin 1] [Fin 1.1, Fin 0.9, Fin 1] =
     (Fin 0, Fin (sqrt (0.02 / 3)), Fin 0, Fin (sqrt (0.02 / 3) * 100)) \<and>
   model_metrics example_data ''jacobs'' =
     Inr \<lparr>MBE = Fin (spec_bias [1.24 * (10 / 290) powr (1 / 7) * (5.67 / 10 ^ 8) * 290 ^ 4 / (5.67 / 10 ^ 8 * 290 ^ 4)] [0.8]),
          RMSE = Fin (spec_rmse [1.24 * (10 / 290) powr (1 / 7) * (5.67 / 10 ^ 8) * 290 ^ 4 / (5.67 / 10 ^ 8 * 290 ^ 4)] [0.8]),
          rMBE = Fin (spec_relative_bias [1.24 * (10 / 290) powr (1 / 7) * (5.67 / 10 ^ 8) * 290 ^ 4 / (5.67 / 10 ^ 8 * 290 ^ 4)] [0.8]),
          rRMSE = Fin (spec_relative_rmse [1.24 * (10 / 290) powr (1 / 7) * (5.67 / 10 ^ 8) * 290 ^ 4 / (5.67 / 10 ^ 8 * 290 ^ 4)] [0.8])\<rparr> \<and>
   (\<exists>res m. validate_emissivity example_data [''jacobs''] = Inr res \<and>
            model_metrics example_data ''jacobs'' = Inr m \<and> map_of res ''jacobs'' = Some m)"
proof -
  have h1: "length [1.1, 0.9, 1 :: real] = length [1, 1, 1 :: real] \<and> spec_mean [1, 1, 1] \<noteq> 0"
    by (simp add: spec_mean_def)
  have v1: "spec_bias [1.1, 0.9, 1] [1, 1, 1] = 0 \<and>
      spec_rmse [1.1, 0.9, 1] [1, 1, 1] = sqrt (0.02 / 3) \<and>
      spec_relative_bias [1.1, 0.9, 1] [1, 1, 1] = 0 \<and>
      spec_relative_rmse [1.1, 0.9, 1] [1, 1, 1] = sqrt (0.02 / 3) * 100"
    by (simp add: spec_bias_def spec_rmse_def spec_relative_bias_def spec_relative_rmse_def
        spec_mean_def power2_eq_square)
  from h1 error_metrics_formulas [where p = "[1.1, 0.9, 1]" and a = "[1, 1, 1]"]
  have "calculate_errors (map Fin [1, 1, 1]) (map Fin [1.1, 0.9, 1]) =
     (Fin (spec_bias [1.1, 0.9, 1] [1, 1, 1]), Fin (spec_rmse [1.1, 0.9, 1] [1, 1, 1]),
      Fin (spec_relative_bias [1.1, 0.9, 1] [1, 1, 1]),
      Fin (spec_relative_rmse [1.1, 0.9, 1] [1, 1, 1]))"
    by blast
  then have A: "calculate_errors [Fin 1, Fin 1, Fin 1] [Fin 1.1, Fin 0.9, Fin 1] =
     (Fin 0, Fin (sqrt (0.02 / 3)), Fin 0, Fin (sqrt (0.02 / 3) * 100))"
    using v1 by simp
  have h2: "num_column example_data ''Ta'' = Inr [Fin 290] \<and>
      num_column example_data ''ea'' = Inr [Fin 10] \<and>
      num_column example_data ''Cloud_Fraction'' = Inr [Fin 0] \<and>
      compute_cloudy_LW_series [Fin 290] [Fin 10] [Fin 0] ''jacobs'' =
        Inr [jacobs (brutsaert_clear_sky (Fin 290) (Fin 10)) (Fin 0)] \<and>
      num_column example_data ''Emissivity_measured'' = Inr (map Fin [0.8]) \<and>
      length [1.24 * (10 / 290) powr (1 / 7) * (5.67 / 10 ^ 8) * 290 ^ 4 / (5.67 / 10 ^ 8 * 290 ^ 4) :: real]
        = length [0.8 :: real] \<and>
      spec_mean [0.8] \<noteq> 0"
    by (simp add: num_column_def getitem_def example_data_def compute_cloudy_LW_series_def
        spec_mean_def)
  from h2 example_predicted
    error_metrics_formulas [where data = example_data and Ta = "[Fin 290]" and ea = "[Fin 10]"
      and c = "[Fin 0]" and model = "''jacobs''"
      and lw = "[jacobs (brutsaert_clear_sky (Fin 290) (Fin 10)) (Fin 0)]"
      and p = "[1.24 * (10 / 290) powr (1 / 7) * (5.67 / 10 ^ 8) * 290 ^ 4 / (5.67 / 10 ^ 8 * 290 ^ 4)]"
      and a = "[0.8]"]
  have B: "model_metrics example_data ''jacobs'' =
     Inr \<lparr>MBE = Fin (spec_bias [1.24 * (10 / 290) powr (1 / 7) * (5.67 / 10 ^ 8) * 290 ^ 4 / (5.67 / 10 ^ 8 * 290 ^ 4)] [0.8]),
          RMSE = Fin (spec_rmse [1.24 * (10 / 290) powr (1 / 7) * (5.67 / 10 ^ 8) * 290 ^ 4 / (5.67 / 10 ^ 8 * 290 ^ 4)] [0.8]),
          rMBE = Fin (spec_relative_bias [1.24 * (10 / 290) powr (1 / 7) * (5.67 / 10 ^ 8) * 290 ^ 4 / (5.67 / 10 ^ 8 * 290 ^ 4)] [0.8]),
          rRMSE = Fin (spec_relative_rmse [1.24 * (10 / 290) powr (1 / 7) * (5.67 / 10 ^ 8) * 290 ^ 4 / (5.67 / 10 ^ 8 * 290 ^ 4)] [0.8])\<rparr>"
    by blast
  then have h3: "\<forall>k \<in> set [''jacobs'']. \<exists>m. model_metrics example_data k = Inr m"
    by simp
  with error_metrics_formulas [where data = example_data and models = "[''jacobs'']"]
  obtain res where res: "validate_emissivity example_data [''jacobs''] = Inr res"
    by blast
  have "''jacobs'' \<in> set [''jacobs'']"
    by simp
  with res error_metrics_formulas [where data = example_data and models = "[''jacobs'']"
      and results = res and model = "''jacobs''"]
  have C: "\<exists>m. model_metrics example_data ''jacobs'' = Inr m \<and> map_of res ''jacobs'' = Some m"
    by blast
  from A B res C show ?thesis
    by blast
qed

end
